theory Spec2Isabelle
  imports Main
begin

section \<open>JavaScript values\<close>

text \<open>
  The file \<^verbatim>\<open>wrappers/javascript/.eslintrc.js\<close> is one statement: an object literal
  assigned to \<^verbatim>\<open>module.exports\<close>. The literal is embedded as a tree of JavaScript
  values. An object keeps its properties in the order the literal writes them, so it is an
  association list from property names to values. The only number in the file is the
  integer literal \<^verbatim>\<open>1\<close>, so numbers are integers here. A function value carries its
  source text; the file has none.
\<close>

datatype jsval =
    JUndefined
  | JNull
  | JBool bool
  | JNum int
  | JStr string
  | JArr "jsval list"
  | JObj "(string \<times> jsval) list"
  | JFun string

section \<open>The configuration module\<close>

text \<open>
  The object literal of the source, property by property and in the source's order.
  Its only free identifier is \<^verbatim>\<open>__dirname\<close>, the directory of the file, which Node.js
  passes to the module as a string: it is the parameter of the definition.
\<close>

definition eslintrc :: "string \<Rightarrow> jsval" where
  "eslintrc dirname = JObj [
    (''ignorePatterns'', JArr [JStr ''node_modules'', JStr ''**/node_modules'', JStr ''**/build'']),
    (''parser'', JStr ''@typescript-eslint/parser''),
    (''extends'', JArr [
      JStr ''eslint:recommended'',
      JStr ''plugin:import/recommended'',
      JStr ''plugin:import/typescript'',
      JStr ''plugin:@typescript-eslint/recommended'',
      JStr ''plugin:@typescript-eslint/recommended-requiring-type-checking'',
      JStr ''plugin:prettier/recommended'']),
    (''parserOptions'', JObj [
      (''tsconfigRootDir'', JStr dirname),
      (''project'', JArr [
        JStr ''./tsconfig.eslint.json'',
        JStr ''shared/tsconfig.json'',
        JStr ''react-native/tsconfig.json'',
        JStr ''nodejs/tsconfig.json'',
        JStr ''react-native-app/tsconfig.json''])]),
    (''settings'', JObj [
      (''import/extensions'', JArr [JStr ''.js'', JStr ''.ts'', JStr ''.jsx'', JStr ''.tsx'']),
      (''import/parsers'', JObj [
        (''@typescript-eslint/parser'', JArr [JStr ''.ts'', JStr ''.tsx''])]),
      (''import/resolver'', JObj [
        (''typescript'', JObj [
          (''extensions'', JArr [JStr ''.js'', JStr ''.jsx'', JStr ''.ts'', JStr ''.tsx'']),
          (''project'', JArr [
            JStr ''shared/tsconfig.json'',
            JStr ''react-native/tsconfig.json'',
            JStr ''nodejs/tsconfig.json'',
            JStr ''react-native-app/tsconfig.json'']),
          (''alwaysTryTypes'', JBool True)]),
        (''node'', JObj [
          (''extensions'', JArr [JStr ''.js'', JStr ''.jsx'', JStr ''.ts'', JStr ''.tsx'']),
          (''project'', JArr [
            JStr ''shared/tsconfig.json'',
            JStr ''react-native/tsconfig.json'',
            JStr ''nodejs/tsconfig.json'',
            JStr ''react-native-app/tsconfig.json''])])])]),
    (''rules'', JObj [
      (''@typescript-eslint/explicit-function-return-type'', JStr ''off''),
      (''@typescript-eslint/explicit-module-boundary-types'', JStr ''off''),
      (''@typescript-eslint/no-use-before-define'', JArr [
        JStr ''error'',
        JObj [(''functions'', JBool False), (''classes'', JBool False), (''variables'', JBool True)]]),
      (''@typescript-eslint/explicit-member-accessibility'', JStr ''error''),
      (''no-console'', JStr ''error''),
      (''@typescript-eslint/consistent-type-imports'', JStr ''error''),
      (''import/no-cycle'', JStr ''error''),
      (''import/newline-after-import'', JArr [JStr ''error'', JObj [(''count'', JNum 1)]]),
      (''import/order'', JArr [
        JStr ''error'',
        JObj [
          (''groups'', JArr [
            JStr ''type'',
            JArr [JStr ''builtin'', JStr ''external''],
            JStr ''parent'',
            JStr ''sibling'',
            JStr ''index'']),
          (''alphabetize'', JObj [(''order'', JStr ''asc'')]),
          (''newlines-between'', JStr ''always'')]]),
      (''@typescript-eslint/no-non-null-assertion'', JStr ''error''),
      (''import/no-extraneous-dependencies'', JArr [
        JStr ''error'',
        JObj [(''devDependencies'', JBool False)]])]),
    (''overrides'', JArr [
      JObj [
        (''files'', JArr [JStr ''.eslintrc.js'', JStr ''babel.config.js'', JStr ''metro.config.js'']),
        (''env'', JObj [(''node'', JBool True)]),
        (''rules'', JObj [
          (''@typescript-eslint/no-var-requires'', JStr ''off''),
          (''@typescript-eslint/no-unsafe-call'', JStr ''off''),
          (''@typescript-eslint/no-unsafe-assignment'', JStr ''off''),
          (''@typescript-eslint/no-unsafe-member-access'', JStr ''off'')])]])]"

text \<open>
  Evaluating the file is the single assignment \<^verbatim>\<open>module.exports = { ... }\<close>. The module
  object is a record with the field the file writes; whatever else the module object
  holds is the record's extension, which the assignment leaves alone.
\<close>

record js_module =
  exports :: jsval

definition eval_module :: "string \<Rightarrow> 'a js_module_scheme \<Rightarrow> 'a js_module_scheme" where
  "eval_module dirname m = m\<lparr>exports := eslintrc dirname\<rparr>"

section \<open>Reading the configuration\<close>

text \<open>
  Property access \<^verbatim>\<open>v[k]\<close> on a plain object: the value stored under the name, and
  nothing when the name is absent or the value is no object. No object literal of the
  file repeats a property name, so the first match is the property.
\<close>

fun property :: "string \<Rightarrow> jsval \<Rightarrow> jsval option" where
  "property k (JObj kvs) = map_of kvs k"
| "property k v = None"

text \<open>A chain of property accesses \<^verbatim>\<open>v[k1][k2]...\<close>.\<close>

fun at_path :: "string list \<Rightarrow> jsval \<Rightarrow> jsval option" where
  "at_path [] v = Some v"
| "at_path (k # ks) v = (case property k v of None \<Rightarrow> None | Some w \<Rightarrow> at_path ks w)"

text \<open>The elements of an array, the entries and the property names of an object.\<close>

fun elements :: "jsval \<Rightarrow> jsval list" where
  "elements (JArr xs) = xs"
| "elements v = []"

fun entries :: "jsval \<Rightarrow> (string \<times> jsval) list" where
  "entries (JObj kvs) = kvs"
| "entries v = []"

definition keys :: "jsval \<Rightarrow> string list" where
  "keys v = map fst (entries v)"

text \<open>
  The array found by a chain of property accesses, as the list of its elements (empty
  when the chain leads nowhere or to something that is no array).
\<close>

definition array_at :: "string list \<Rightarrow> jsval \<Rightarrow> jsval list" where
  "array_at ks v = (case at_path ks v of None \<Rightarrow> [] | Some a \<Rightarrow> elements a)"

text \<open>
  The blocks of the \<^verbatim>\<open>overrides\<close> array of a configuration, and the entries of the
  \<^verbatim>\<open>rules\<close> table of a configuration or of an override block.
\<close>

definition override_blocks :: "jsval \<Rightarrow> jsval list" where
  "override_blocks c = array_at [''overrides''] c"

definition rule_entries :: "jsval \<Rightarrow> (string \<times> jsval) list" where
  "rule_entries c = (case property ''rules'' c of None \<Rightarrow> [] | Some r \<Rightarrow> entries r)"

fun is_array :: "jsval \<Rightarrow> bool" where
  "is_array (JArr xs) = True"
| "is_array v = False"

text \<open>
  The severity of a rule entry: the entry itself when it is a string, the first element
  when it is an array (the remaining elements are the rule's options).
\<close>

fun severity :: "jsval \<Rightarrow> string option" where
  "severity (JStr s) = Some s"
| "severity (JArr (JStr s # opts)) = Some s"
| "severity v = None"

text \<open>
  A tree built from arrays and plain objects whose leaves all satisfy \<open>leaf\<close>.
\<close>

fun built_from :: "(jsval \<Rightarrow> bool) \<Rightarrow> jsval \<Rightarrow> bool" where
  "built_from leaf (JArr xs) = list_all (built_from leaf) xs"
| "built_from leaf (JObj kvs) = list_all (\<lambda>kv. built_from leaf (snd kv)) kvs"
| "built_from leaf v = leaf v"

fun string_or_boolean :: "jsval \<Rightarrow> bool" where
  "string_or_boolean (JStr s) = True"
| "string_or_boolean (JBool b) = True"
| "string_or_boolean v = False"

fun string_boolean_or_number :: "jsval \<Rightarrow> bool" where
  "string_boolean_or_number (JStr s) = True"
| "string_boolean_or_number (JBool b) = True"
| "string_boolean_or_number (JNum n) = True"
| "string_boolean_or_number v = False"

section \<open>The file as a program\<close>

text \<open>
  To say what evaluating the file does and does not do, the file is also embedded as
  syntax and run in a world it could read and change. The expressions are the ones the
  file is written in (string, number and boolean literals, identifiers, array and object
  literals) and the call expression, the one form through which module code reaches
  the outside. The statements are the assignment to a property of a named object,
  \<^verbatim>\<open>x.k = e\<close>, and the expression statement.
\<close>

datatype expr =
    StrLit string
  | NumLit int
  | BoolLit bool
  | Ident string
  | ArrayLit "expr list"
  | ObjectLit "(string \<times> expr) list"
  | Call expr "expr list"

datatype stmt =
    AssignMember string string expr
  | ExprStmt expr

text \<open>
  The whole source text of \<^verbatim>\<open>.eslintrc.js\<close>: the statement
  \<^verbatim>\<open>module.exports = { ... }\<close>, with \<^verbatim>\<open>__dirname\<close> as the identifier it is.
\<close>

definition eslintrc_js :: "stmt list" where
  "eslintrc_js = [AssignMember ''module'' ''exports''
    (ObjectLit [
      (''ignorePatterns'', ArrayLit [StrLit ''node_modules'', StrLit ''**/node_modules'', StrLit ''**/build'']),
      (''parser'', StrLit ''@typescript-eslint/parser''),
      (''extends'', ArrayLit [
        StrLit ''eslint:recommended'',
        StrLit ''plugin:import/recommended'',
        StrLit ''plugin:import/typescript'',
        StrLit ''plugin:@typescript-eslint/recommended'',
        StrLit ''plugin:@typescript-eslint/recommended-requiring-type-checking'',
        StrLit ''plugin:prettier/recommended'']),
      (''parserOptions'', ObjectLit [
        (''tsconfigRootDir'', Ident ''__dirname''),
        (''project'', ArrayLit [
          StrLit ''./tsconfig.eslint.json'',
          StrLit ''shared/tsconfig.json'',
          StrLit ''react-native/tsconfig.json'',
          StrLit ''nodejs/tsconfig.json'',
          StrLit ''react-native-app/tsconfig.json''])]),
      (''settings'', ObjectLit [
        (''import/extensions'', ArrayLit [StrLit ''.js'', StrLit ''.ts'', StrLit ''.jsx'', StrLit ''.tsx'']),
        (''import/parsers'', ObjectLit [
          (''@typescript-eslint/parser'', ArrayLit [StrLit ''.ts'', StrLit ''.tsx''])]),
        (''import/resolver'', ObjectLit [
          (''typescript'', ObjectLit [
            (''extensions'', ArrayLit [StrLit ''.js'', StrLit ''.jsx'', StrLit ''.ts'', StrLit ''.tsx'']),
            (''project'', ArrayLit [
              StrLit ''shared/tsconfig.json'',
              StrLit ''react-native/tsconfig.json'',
              StrLit ''nodejs/tsconfig.json'',
              StrLit ''react-native-app/tsconfig.json'']),
            (''alwaysTryTypes'', BoolLit True)]),
          (''node'', ObjectLit [
            (''extensions'', ArrayLit [StrLit ''.js'', StrLit ''.jsx'', StrLit ''.ts'', StrLit ''.tsx'']),
            (''project'', ArrayLit [
              StrLit ''shared/tsconfig.json'',
              StrLit ''react-native/tsconfig.json'',
              StrLit ''nodejs/tsconfig.json'',
              StrLit ''react-native-app/tsconfig.json''])])])]),
      (''rules'', ObjectLit [
        (''@typescript-eslint/explicit-function-return-type'', StrLit ''off''),
        (''@typescript-eslint/explicit-module-boundary-types'', StrLit ''off''),
        (''@typescript-eslint/no-use-before-define'', ArrayLit [
          StrLit ''error'',
          ObjectLit [(''functions'', BoolLit False), (''classes'', BoolLit False), (''variables'', BoolLit True)]]),
        (''@typescript-eslint/explicit-member-accessibility'', StrLit ''error''),
        (''no-console'', StrLit ''error''),
        (''@typescript-eslint/consistent-type-imports'', StrLit ''error''),
        (''import/no-cycle'', StrLit ''error''),
        (''import/newline-after-import'', ArrayLit [StrLit ''error'', ObjectLit [(''count'', NumLit 1)]]),
        (''import/order'', ArrayLit [
          StrLit ''error'',
          ObjectLit [
            (''groups'', ArrayLit [
              StrLit ''type'',
              ArrayLit [StrLit ''builtin'', StrLit ''external''],
              StrLit ''parent'',
              StrLit ''sibling'',
              StrLit ''index'']),
            (''alphabetize'', ObjectLit [(''order'', StrLit ''asc'')]),
            (''newlines-between'', StrLit ''always'')]]),
        (''@typescript-eslint/no-non-null-assertion'', StrLit ''error''),
        (''import/no-extraneous-dependencies'', ArrayLit [
          StrLit ''error'',
          ObjectLit [(''devDependencies'', BoolLit False)]])]),
      (''overrides'', ArrayLit [
        ObjectLit [
          (''files'', ArrayLit [StrLit ''.eslintrc.js'', StrLit ''babel.config.js'', StrLit ''metro.config.js'']),
          (''env'', ObjectLit [(''node'', BoolLit True)]),
          (''rules'', ObjectLit [
            (''@typescript-eslint/no-var-requires'', StrLit ''off''),
            (''@typescript-eslint/no-unsafe-call'', StrLit ''off''),
            (''@typescript-eslint/no-unsafe-assignment'', StrLit ''off''),
            (''@typescript-eslint/no-unsafe-member-access'', StrLit ''off'')])]])])]"

text \<open>
  The world of a module evaluation: the bindings in scope (\<^verbatim>\<open>module\<close>, \<^verbatim>\<open>__dirname\<close>,
  \<^verbatim>\<open>require\<close>, the globals), what the functions of the host return when called (a
  function value is known by the text it carries), and the trace of the calls made so far. Every function is the host's, since the language here
  has no function expression: a call is how a module does input and output, and each
  call is recorded in the trace.
\<close>

datatype event = Called string "jsval list"

datatype error = ReferenceError string | TypeError

record world =
  vars :: "string \<Rightarrow> jsval option"
  host :: "string \<Rightarrow> jsval list \<Rightarrow> jsval"
  trace :: "event list"

text \<open>
  Storing a property in an object: an existing property keeps its place and takes the
  new value, a new property goes to the end.
\<close>

fun set_property :: "string \<Rightarrow> jsval \<Rightarrow> (string \<times> jsval) list \<Rightarrow> (string \<times> jsval) list" where
  "set_property k v [] = [(k, v)]"
| "set_property k v (p # ps) = (if fst p = k then (k, v) # ps else p # set_property k v ps)"

text \<open>
  Evaluation of an expression, left to right, returning the value and the world after
  it. An unbound identifier is a \<^verbatim>\<open>ReferenceError\<close>, a call of something that is no
  function a \<^verbatim>\<open>TypeError\<close>. An object literal stores its properties one after the other,
  so a repeated name keeps its first place and its last value.
\<close>

fun eval :: "expr \<Rightarrow> world \<Rightarrow> error + jsval \<times> world"
  and eval_elements :: "expr list \<Rightarrow> world \<Rightarrow> error + jsval list \<times> world"
  and eval_properties ::
    "(string \<times> expr) list \<Rightarrow> (string \<times> jsval) list \<Rightarrow> world
      \<Rightarrow> error + (string \<times> jsval) list \<times> world"
where
  "eval (StrLit s) w = Inr (JStr s, w)"
| "eval (NumLit n) w = Inr (JNum n, w)"
| "eval (BoolLit b) w = Inr (JBool b, w)"
| "eval (Ident x) w =
     (case vars w x of None \<Rightarrow> Inl (ReferenceError x) | Some v \<Rightarrow> Inr (v, w))"
| "eval (ArrayLit es) w =
     (case eval_elements es w of Inl err \<Rightarrow> Inl err | Inr (vs, w1) \<Rightarrow> Inr (JArr vs, w1))"
| "eval (ObjectLit kes) w =
     (case eval_properties kes [] w of Inl err \<Rightarrow> Inl err
      | Inr (kvs, w1) \<Rightarrow> Inr (JObj kvs, w1))"
| "eval (Call f args) w =
     (case eval f w of Inl err \<Rightarrow> Inl err
      | Inr (fv, w1) \<Rightarrow>
         (case eval_elements args w1 of Inl err \<Rightarrow> Inl err
          | Inr (vs, w2) \<Rightarrow>
             (case fv of
                JFun name \<Rightarrow> Inr (host w2 name vs, w2\<lparr>trace := trace w2 @ [Called name vs]\<rparr>)
              | _ \<Rightarrow> Inl TypeError)))"
| "eval_elements [] w = Inr ([], w)"
| "eval_elements (e # es) w =
     (case eval e w of Inl err \<Rightarrow> Inl err
      | Inr (v, w1) \<Rightarrow>
         (case eval_elements es w1 of Inl err \<Rightarrow> Inl err
          | Inr (vs, w2) \<Rightarrow> Inr (v # vs, w2)))"
| "eval_properties [] props w = Inr (props, w)"
| "eval_properties ((k, e) # kes) props w =
     (case eval e w of Inl err \<Rightarrow> Inl err
      | Inr (v, w1) \<Rightarrow> eval_properties kes (set_property k v props) w1)"

text \<open>
  Execution of a statement. The assignment \<^verbatim>\<open>x.k = e\<close> looks up \<^verbatim>\<open>x\<close>, evaluates
  \<^verbatim>\<open>e\<close> and stores the value in the object. Storing into \<^verbatim>\<open>undefined\<close> or \<^verbatim>\<open>null\<close> is a
  \<^verbatim>\<open>TypeError\<close>; storing into any other value that is no plain object changes nothing.
\<close>

fun exec :: "stmt \<Rightarrow> world \<Rightarrow> error + world" where
  "exec (ExprStmt e) w =
     (case eval e w of Inl err \<Rightarrow> Inl err | Inr (v, w1) \<Rightarrow> Inr w1)"
| "exec (AssignMember x k e) w =
     (case vars w x of
        None \<Rightarrow> Inl (ReferenceError x)
      | Some base \<Rightarrow>
         (case eval e w of Inl err \<Rightarrow> Inl err
          | Inr (v, w1) \<Rightarrow>
             (case base of
                JObj props \<Rightarrow> Inr (w1\<lparr>vars := (vars w1)(x \<mapsto> JObj (set_property k v props))\<rparr>)
              | JUndefined \<Rightarrow> Inl TypeError
              | JNull \<Rightarrow> Inl TypeError
              | _ \<Rightarrow> Inr w1)))"

fun run :: "stmt list \<Rightarrow> world \<Rightarrow> error + world" where
  "run [] w = Inr w"
| "run (s # ss) w = (case exec s w of Inl err \<Rightarrow> Inl err | Inr w1 \<Rightarrow> run ss w1)"

text \<open>What a world exports: the \<^verbatim>\<open>exports\<close> property of its \<^verbatim>\<open>module\<close> object.\<close>

definition exported :: "world \<Rightarrow> jsval option" where
  "exported w = (case vars w ''module'' of None \<Rightarrow> None | Some md \<Rightarrow> property ''exports'' md)"

text \<open>
  The world in which Node.js starts to evaluate a module of directory \<open>dirname\<close>:
  \<^verbatim>\<open>module.exports\<close> is the empty object, \<^verbatim>\<open>require\<close> is in scope, nothing has been
  called yet.
\<close>

definition fresh_world :: "string \<Rightarrow> world" where
  "fresh_world dirname = \<lparr>
     vars = [''__dirname'' \<mapsto> JStr dirname,
             ''module'' \<mapsto> JObj [(''exports'', JObj [])],
             ''require'' \<mapsto> JFun ''require''],
     host = (\<lambda>name args. JUndefined),
     trace = []\<rparr>"

section \<open>The exported configuration\<close>

text \<open>
  C1. The rule-preset list \<^verbatim>\<open>extends\<close> of the exported configuration is exactly the six
  presets of the claim, in that order, with \<^verbatim>\<open>plugin:prettier/recommended\<close> last.
\<close>

theorem extends_presets:
  "at_path [''extends''] (exports (eval_module dirname m)) = Some (JArr [
      JStr ''eslint:recommended'',
      JStr ''plugin:import/recommended'',
      JStr ''plugin:import/typescript'',
      JStr ''plugin:@typescript-eslint/recommended'',
      JStr ''plugin:@typescript-eslint/recommended-requiring-type-checking'',
      JStr ''plugin:prettier/recommended''])
   \<and> last (array_at [''extends''] (exports (eval_module dirname m)))
       = JStr ''plugin:prettier/recommended''"
  by (simp add: eval_module_def eslintrc_def array_at_def)

text \<open>
  C2. The configuration has exactly one override block. Its \<^verbatim>\<open>files\<close> are exactly the
  three globs \<^verbatim>\<open>.eslintrc.js\<close>, \<^verbatim>\<open>babel.config.js\<close> and \<^verbatim>\<open>metro.config.js\<close>, and every
  entry of its (non-empty) rule table has severity \<^verbatim>\<open>off\<close>: the block only disables
  rules.
\<close>

theorem override_block_only_disables:
  "\<exists>block. override_blocks (exports (eval_module dirname m)) = [block]
     \<and> property ''files'' block
         = Some (JArr [JStr ''.eslintrc.js'', JStr ''babel.config.js'', JStr ''metro.config.js''])
     \<and> rule_entries block \<noteq> []
     \<and> list_all (\<lambda>kv. severity (snd kv) = Some ''off'') (rule_entries block)"
  by (simp add: eval_module_def eslintrc_def override_blocks_def array_at_def rule_entries_def)

theorem override_block_only_disables_witness:
  "\<exists>block. override_blocks
        (exports (eval_module ''/indy-vdr/wrappers/javascript'' \<lparr>exports = JObj []\<rparr>)) = [block]
     \<and> property ''files'' block
         = Some (JArr [JStr ''.eslintrc.js'', JStr ''babel.config.js'', JStr ''metro.config.js''])
     \<and> rule_entries block \<noteq> []
     \<and> list_all (\<lambda>kv. severity (snd kv) = Some ''off'') (rule_entries block)"
  by (rule override_block_only_disables)

text \<open>
  C3, as the claim states it, fails: \<^verbatim>\<open>settings['import/extensions']\<close> lists
  \<^verbatim>\<open>.js, .ts, .jsx, .tsx\<close> while both resolvers list \<^verbatim>\<open>.js, .jsx, .ts, .tsx\<close>, so the
  three lists are not equal as ordered lists.
\<close>

theorem extensions_order_counterexample:
  "\<not> (at_path [''settings'', ''import/extensions'']
          (exports (eval_module ''/indy-vdr/wrappers/javascript'' \<lparr>exports = JObj []\<rparr>))
        = at_path [''settings'', ''import/resolver'', ''typescript'', ''extensions'']
          (exports (eval_module ''/indy-vdr/wrappers/javascript'' \<lparr>exports = JObj []\<rparr>))
      \<and> at_path [''settings'', ''import/extensions'']
          (exports (eval_module ''/indy-vdr/wrappers/javascript'' \<lparr>exports = JObj []\<rparr>))
        = at_path [''settings'', ''import/resolver'', ''node'', ''extensions'']
          (exports (eval_module ''/indy-vdr/wrappers/javascript'' \<lparr>exports = JObj []\<rparr>)))"
  by (simp add: eval_module_def eslintrc_def)

text \<open>
  C3, amended. The extension list under \<^verbatim>\<open>settings['import/extensions']\<close> is
  \<^verbatim>\<open>['.js', '.ts', '.jsx', '.tsx']\<close>; the \<^verbatim>\<open>extensions\<close> lists of the typescript resolver
  and of the node resolver are both \<^verbatim>\<open>['.js', '.jsx', '.ts', '.tsx']\<close>, equal to each other
  in elements and order. The first list has the same four elements as the resolvers'
  list, in a different order.
\<close>

theorem extensions_same_elements:
  "at_path [''settings'', ''import/extensions''] (exports (eval_module dirname m))
     = Some (JArr [JStr ''.js'', JStr ''.ts'', JStr ''.jsx'', JStr ''.tsx''])
   \<and> at_path [''settings'', ''import/resolver'', ''typescript'', ''extensions'']
         (exports (eval_module dirname m))
     = Some (JArr [JStr ''.js'', JStr ''.jsx'', JStr ''.ts'', JStr ''.tsx''])
   \<and> at_path [''settings'', ''import/resolver'', ''node'', ''extensions'']
         (exports (eval_module dirname m))
     = at_path [''settings'', ''import/resolver'', ''typescript'', ''extensions'']
         (exports (eval_module dirname m))
   \<and> set (array_at [''settings'', ''import/extensions''] (exports (eval_module dirname m)))
     = set (array_at [''settings'', ''import/resolver'', ''typescript'', ''extensions'']
         (exports (eval_module dirname m)))
   \<and> length (array_at [''settings'', ''import/extensions''] (exports (eval_module dirname m)))
     = length (array_at [''settings'', ''import/resolver'', ''typescript'', ''extensions'']
         (exports (eval_module dirname m)))
   \<and> array_at [''settings'', ''import/extensions''] (exports (eval_module dirname m))
     \<noteq> array_at [''settings'', ''import/resolver'', ''typescript'', ''extensions'']
         (exports (eval_module dirname m))"
  by (simp add: eval_module_def eslintrc_def array_at_def insert_commute)

text \<open>
  C4. The ignore rules \<^verbatim>\<open>ignorePatterns\<close> are exactly the list of globs
  \<^verbatim>\<open>['node_modules', '**/node_modules', '**/build']\<close>, and the list is not empty.
\<close>

theorem ignore_patterns:
  "at_path [''ignorePatterns''] (exports (eval_module dirname m))
     = Some (JArr [JStr ''node_modules'', JStr ''**/node_modules'', JStr ''**/build''])
   \<and> array_at [''ignorePatterns''] (exports (eval_module dirname m)) \<noteq> []"
  by (simp add: eval_module_def eslintrc_def array_at_def)

text \<open>
  C5. The top-level \<^verbatim>\<open>parser\<close> is \<^verbatim>\<open>@typescript-eslint/parser\<close>. The table
  \<^verbatim>\<open>settings['import/parsers']\<close> has that parser as its only key, associated with exactly
  the extensions \<^verbatim>\<open>.ts\<close> and \<^verbatim>\<open>.tsx\<close>.
\<close>

theorem parser_selection:
  "\<exists>p parsers. p = ''@typescript-eslint/parser''
     \<and> at_path [''parser''] (exports (eval_module dirname m)) = Some (JStr p)
     \<and> at_path [''settings'', ''import/parsers''] (exports (eval_module dirname m)) = Some parsers
     \<and> keys parsers = [p]
     \<and> property p parsers = Some (JArr [JStr ''.ts'', JStr ''.tsx''])"
  by (simp add: eval_module_def eslintrc_def keys_def)

text \<open>
  C6. \<^verbatim>\<open>parserOptions.project\<close> is the list of exactly five project files of the claim,
  and \<^verbatim>\<open>parserOptions.tsconfigRootDir\<close> is the directory of the configuration file
  (the \<^verbatim>\<open>__dirname\<close> the module was evaluated with).
\<close>

theorem parser_options:
  "at_path [''parserOptions'', ''project''] (exports (eval_module dirname m)) = Some (JArr [
      JStr ''./tsconfig.eslint.json'',
      JStr ''shared/tsconfig.json'',
      JStr ''react-native/tsconfig.json'',
      JStr ''nodejs/tsconfig.json'',
      JStr ''react-native-app/tsconfig.json''])
   \<and> length (array_at [''parserOptions'', ''project''] (exports (eval_module dirname m))) = 5
   \<and> at_path [''parserOptions'', ''tsconfigRootDir''] (exports (eval_module dirname m))
     = Some (JStr dirname)"
  by (simp add: eval_module_def eslintrc_def array_at_def)

text \<open>
  C7, as the claim states it, fails: the exported tree is not made of strings, booleans,
  arrays and plain objects only. The options of \<^verbatim>\<open>import/newline-after-import\<close> are
  \<^verbatim>\<open>{ count: 1 }\<close>, and \<^verbatim>\<open>1\<close> is a number.
\<close>

theorem only_strings_and_booleans_counterexample:
  "\<not> built_from string_or_boolean
        (exports (eval_module ''/indy-vdr/wrappers/javascript'' \<lparr>exports = JObj []\<rparr>))"
  by (simp add: eval_module_def eslintrc_def)

text \<open>
  Storing a property and reading it back gives the stored value.
\<close>

lemma property_set_property:
  "property k (JObj (set_property k v props)) = Some v"
  by (induction props) auto

text \<open>
  C7, amended. Evaluating the module is pure and deterministic. Take any two worlds in
  which \<^verbatim>\<open>__dirname\<close> is the same directory path and \<^verbatim>\<open>module\<close> is an object; they may
  differ in everything else (other bindings, what the host's functions return, the calls
  made before, what the module object holds). Running the file succeeds in both and both
  export the same value, the configuration \<open>exports (eval_module dirname m)\<close>
  of the other claims. That value is a finite tree of strings, booleans, numbers, arrays
  and plain objects (no function value). The run performs no input or output (the trace
  of calls is unchanged) and no mutation other than storing the value in
  \<^verbatim>\<open>module.exports\<close>: the world after the run is the world before it with that one
  property set.
\<close>

theorem module_evaluation_pure:
  assumes "vars w ''__dirname'' = Some (JStr dirname)"
    and "vars w ''module'' = Some (JObj props)"
    and "vars w' ''__dirname'' = Some (JStr dirname)"
    and "vars w' ''module'' = Some (JObj props')"
  shows "\<exists>v u u'.
      run eslintrc_js w = Inr u \<and> run eslintrc_js w' = Inr u'
    \<and> exported u = Some v \<and> exported u' = Some v
    \<and> v = exports (eval_module dirname m)
    \<and> built_from string_boolean_or_number v
    \<and> trace u = trace w
    \<and> u = w\<lparr>vars := (vars w)(''module'' \<mapsto> JObj (set_property ''exports'' v props))\<rparr>"
proof -
  have r: "run eslintrc_js x
      = Inr (x\<lparr>vars := (vars x)(''module'' \<mapsto>
          JObj (set_property ''exports'' (eslintrc dirname) ps))\<rparr>)"
    if "vars x ''__dirname'' = Some (JStr dirname)" and "vars x ''module'' = Some (JObj ps)"
    for x ps
    using that by (simp add: eslintrc_js_def eslintrc_def)
  have b: "built_from string_boolean_or_number (eslintrc dirname)"
    by (simp add: eslintrc_def)
  show ?thesis
    using r [OF assms(1,2)] r [OF assms(3,4)] b
    by (simp add: exported_def property_set_property eval_module_def del: property.simps)
qed

theorem module_evaluation_pure_witness:
  "vars (fresh_world ''/indy-vdr/wrappers/javascript'') ''__dirname''
     = Some (JStr ''/indy-vdr/wrappers/javascript'')
   \<and> vars (fresh_world ''/indy-vdr/wrappers/javascript'') ''module''
     = Some (JObj [(''exports'', JObj [])])
   \<and> vars ((fresh_world ''/indy-vdr/wrappers/javascript'')
         \<lparr>host := (\<lambda>name args. JNull), trace := [Called ''require'' [JStr ''fs'']]\<rparr>)
       ''__dirname''
     = Some (JStr ''/indy-vdr/wrappers/javascript'')
   \<and> vars ((fresh_world ''/indy-vdr/wrappers/javascript'')
         \<lparr>host := (\<lambda>name args. JNull), trace := [Called ''require'' [JStr ''fs'']]\<rparr>)
       ''module''
     = Some (JObj [(''exports'', JObj [])])
   \<and> (\<exists>v u u'.
      run eslintrc_js (fresh_world ''/indy-vdr/wrappers/javascript'') = Inr u
    \<and> run eslintrc_js ((fresh_world ''/indy-vdr/wrappers/javascript'')
         \<lparr>host := (\<lambda>name args. JNull), trace := [Called ''require'' [JStr ''fs'']]\<rparr>) = Inr u'
    \<and> exported u = Some v \<and> exported u' = Some v
    \<and> v = exports (eval_module ''/indy-vdr/wrappers/javascript'' \<lparr>exports = JObj []\<rparr>)
    \<and> built_from string_boolean_or_number v
    \<and> trace u = trace (fresh_world ''/indy-vdr/wrappers/javascript'')
    \<and> u = (fresh_world ''/indy-vdr/wrappers/javascript'')
        \<lparr>vars := (vars (fresh_world ''/indy-vdr/wrappers/javascript''))
           (''module'' \<mapsto> JObj (set_property ''exports'' v [(''exports'', JObj [])]))\<rparr>)"
proof -
  have h1: "vars (fresh_world ''/indy-vdr/wrappers/javascript'') ''__dirname''
      = Some (JStr ''/indy-vdr/wrappers/javascript'')"
    by (simp add: fresh_world_def)
  have h2: "vars (fresh_world ''/indy-vdr/wrappers/javascript'') ''module''
      = Some (JObj [(''exports'', JObj [])])"
    by (simp add: fresh_world_def)
  have h3: "vars ((fresh_world ''/indy-vdr/wrappers/javascript'')
        \<lparr>host := (\<lambda>name args. JNull), trace := [Called ''require'' [JStr ''fs'']]\<rparr>)
      ''__dirname''
      = Some (JStr ''/indy-vdr/wrappers/javascript'')"
    by (simp add: fresh_world_def)
  have h4: "vars ((fresh_world ''/indy-vdr/wrappers/javascript'')
        \<lparr>host := (\<lambda>name args. JNull), trace := [Called ''require'' [JStr ''fs'']]\<rparr>)
      ''module''
      = Some (JObj [(''exports'', JObj [])])"
    by (simp add: fresh_world_def)
  from h1 h2 h3 h4
    module_evaluation_pure [OF h1 h2 h3 h4, where m = "\<lparr>exports = JObj []\<rparr>"]
  show ?thesis by blast
qed

text \<open>
  C9. Every entry of the top-level \<^verbatim>\<open>rules\<close> table has severity \<^verbatim>\<open>error\<close> or \<^verbatim>\<open>off\<close>;
  an entry that is an array has \<^verbatim>\<open>error\<close> as its first element. No rule entry of the
  configuration, the override blocks included, has severity \<^verbatim>\<open>warn\<close>.
\<close>

theorem rule_severities:
  "rule_entries (exports (eval_module dirname m)) \<noteq> []
   \<and> list_all (\<lambda>kv. severity (snd kv) = Some ''error'' \<or> severity (snd kv) = Some ''off'')
        (rule_entries (exports (eval_module dirname m)))
   \<and> list_all (\<lambda>kv. is_array (snd kv) \<longrightarrow> severity (snd kv) = Some ''error'')
        (rule_entries (exports (eval_module dirname m)))
   \<and> list_all (\<lambda>kv. severity (snd kv) \<noteq> Some ''warn'')
        (rule_entries (exports (eval_module dirname m))
         @ concat (map rule_entries (override_blocks (exports (eval_module dirname m)))))"
  by (simp add: eval_module_def eslintrc_def rule_entries_def override_blocks_def array_at_def)

theorem rule_severities_witness:
  "rule_entries (exports (eval_module ''/indy-vdr/wrappers/javascript'' \<lparr>exports = JObj []\<rparr>))
     \<noteq> []
   \<and> list_all (\<lambda>kv. severity (snd kv) = Some ''error'' \<or> severity (snd kv) = Some ''off'')
        (rule_entries
          (exports (eval_module ''/indy-vdr/wrappers/javascript'' \<lparr>exports = JObj []\<rparr>)))
   \<and> list_all (\<lambda>kv. is_array (snd kv) \<longrightarrow> severity (snd kv) = Some ''error'')
        (rule_entries
          (exports (eval_module ''/indy-vdr/wrappers/javascript'' \<lparr>exports = JObj []\<rparr>)))
   \<and> list_all (\<lambda>kv. severity (snd kv) \<noteq> Some ''warn'')
        (rule_entries
          (exports (eval_module ''/indy-vdr/wrappers/javascript'' \<lparr>exports = JObj []\<rparr>))
         @ concat (map rule_entries (override_blocks
          (exports (eval_module ''/indy-vdr/wrappers/javascript'' \<lparr>exports = JObj []\<rparr>)))))"
  by (rule rule_severities)

text \<open>
  C10. The typescript resolver and the node resolver have the same \<^verbatim>\<open>project\<close> list (the
  four tsconfig paths of the claim, in that order) and the same \<^verbatim>\<open>extensions\<close> list, and
  every project path of either resolver is also in \<^verbatim>\<open>parserOptions.project\<close>.
\<close>

theorem resolvers_agree:
  "at_path [''settings'', ''import/resolver'', ''typescript'', ''project'']
       (exports (eval_module dirname m))
     = Some (JArr [
        JStr ''shared/tsconfig.json'',
        JStr ''react-native/tsconfig.json'',
        JStr ''nodejs/tsconfig.json'',
        JStr ''react-native-app/tsconfig.json''])
   \<and> at_path [''settings'', ''import/resolver'', ''node'', ''project'']
       (exports (eval_module dirname m))
     = at_path [''settings'', ''import/resolver'', ''typescript'', ''project'']
       (exports (eval_module dirname m))
   \<and> at_path [''settings'', ''import/resolver'', ''typescript'', ''extensions'']
       (exports (eval_module dirname m)) \<noteq> None
   \<and> at_path [''settings'', ''import/resolver'', ''node'', ''extensions'']
       (exports (eval_module dirname m))
     = at_path [''settings'', ''import/resolver'', ''typescript'', ''extensions'']
       (exports (eval_module dirname m))
   \<and> list_all
        (\<lambda>p. p \<in> set (array_at [''parserOptions'', ''project''] (exports (eval_module dirname m))))
        (array_at [''settings'', ''import/resolver'', ''typescript'', ''project'']
           (exports (eval_module dirname m))
         @ array_at [''settings'', ''import/resolver'', ''node'', ''project'']
           (exports (eval_module dirname m)))"
  by (simp add: eval_module_def eslintrc_def array_at_def)

theorem resolvers_agree_witness:
  "at_path [''settings'', ''import/resolver'', ''typescript'', ''project'']
       (exports (eval_module ''/indy-vdr/wrappers/javascript'' \<lparr>exports = JObj []\<rparr>))
     = Some (JArr [
        JStr ''shared/tsconfig.json'',
        JStr ''react-native/tsconfig.json'',
        JStr ''nodejs/tsconfig.json'',
        JStr ''react-native-app/tsconfig.json''])
   \<and> at_path [''settings'', ''import/resolver'', ''node'', ''project'']
       (exports (eval_module ''/indy-vdr/wrappers/javascript'' \<lparr>exports = JObj []\<rparr>))
     = at_path [''settings'', ''import/resolver'', ''typescript'', ''project'']
       (exports (eval_module ''/indy-vdr/wrappers/javascript'' \<lparr>exports = JObj []\<rparr>))
   \<and> at_path [''settings'', ''import/resolver'', ''typescript'', ''extensions'']
       (exports (eval_module ''/indy-vdr/wrappers/javascript'' \<lparr>exports = JObj []\<rparr>)) \<noteq> None
   \<and> at_path [''settings'', ''import/resolver'', ''node'', ''extensions'']
       (exports (eval_module ''/indy-vdr/wrappers/javascript'' \<lparr>exports = JObj []\<rparr>))
     = at_path [''settings'', ''import/resolver'', ''typescript'', ''extensions'']
       (exports (eval_module ''/indy-vdr/wrappers/javascript'' \<lparr>exports = JObj []\<rparr>))
   \<and> list_all
        (\<lambda>p. p \<in> set (array_at [''parserOptions'', ''project'']
          (exports (eval_module ''/indy-vdr/wrappers/javascript'' \<lparr>exports = JObj []\<rparr>))))
        (array_at [''settings'', ''import/resolver'', ''typescript'', ''project'']
           (exports (eval_module ''/indy-vdr/wrappers/javascript'' \<lparr>exports = JObj []\<rparr>))
         @ array_at [''settings'', ''import/resolver'', ''node'', ''project'']
           (exports (eval_module ''/indy-vdr/wrappers/javascript'' \<lparr>exports = JObj []\<rparr>)))"
  by (rule resolvers_agree)

end
